theory Spec2Isabelle
  imports Main
begin

section \<open>The unified gesture handler of bible-nav\<close>

text \<open>
  The development embeds \<^verbatim>\<open>modules/gestureHandler.js\<close> (class \<^verbatim>\<open>GestureHandler\<close> and
  \<^verbatim>\<open>createGestureHandler\<close>) together with the thresholds of \<^verbatim>\<open>modules/constants.js\<close>.
  Coordinates and millisecond timestamps are integers. The JavaScript host is written out
  as far as the handler uses it: the table of pending \<^verbatim>\<open>setTimeout\<close> timers, the clock
  value read by \<^verbatim>\<open>Date.now()\<close> (a parameter of every operation that reads it), the log of
  callback invocations and the log of \<^verbatim>\<open>preventDefault\<close> calls.
\<close>

subsection \<open>Constants\<close>

definition SWIPE_THRESHOLD :: int where
  "SWIPE_THRESHOLD = 20"

definition DRAG_THRESHOLD :: int where
  "DRAG_THRESHOLD = 50"

definition MOVEMENT_DETECTION_THRESHOLD :: int where
  "MOVEMENT_DETECTION_THRESHOLD = 5"

definition TAP_DELAY :: int where
  "TAP_DELAY = 300"

subsection \<open>Data\<close>

text \<open>
  An event carries the three coordinates the handler reads and its target element. For a
  touch event (\<^verbatim>\<open>event.type.startsWith('touch')\<close>) the coordinates are those of
  \<^verbatim>\<open>event.changedTouches[0]\<close>, which the host always supplies for touchstart, touchmove
  and touchend.
\<close>

record Point =
  screenX :: int
  screenY :: int
  clientX :: int

datatype Event =
    TouchEvent nat Point
  | MouseEvent nat Point

record Coords =
  coordX :: int
  coordY :: int
  coordClientX :: int

record GestureState =
  startX :: int
  startY :: int
  lastX :: int
  accumulatedDistance :: int
  isDragging :: bool
  hasActuallyDragged :: bool
  lastTapTime :: int
  tapTimeout :: "nat option"

text \<open>
  A callback either returns a JavaScript value or throws. Of the returned value only what
  the listeners test is kept: \<^verbatim>\<open>null\<close>, \<^verbatim>\<open>undefined\<close>, or an object with the truth
  value of its \<^verbatim>\<open>preventDefault\<close> property.
\<close>

datatype JsValue = JsNull | JsUndefined | JsObject bool

datatype 'a Completion = Returned 'a | Thrown

text \<open>A handler slot holding \<^verbatim>\<open>null\<close> is \<open>None\<close>.\<close>

record Handlers =
  onSwipe :: "(int \<Rightarrow> JsValue Completion) option"
  onDrag :: "(int \<Rightarrow> JsValue Completion) option"
  onTap :: "(int \<Rightarrow> JsValue Completion) option"
  onDoubleTap :: "(unit \<Rightarrow> JsValue Completion) option"

datatype Call = Swipe int | Drag int | Tap int | DoubleTap

text \<open>
  A pending timer: its handle, the time at which it becomes due, and the \<^verbatim>\<open>coords.clientX\<close>
  captured by the closure passed to \<^verbatim>\<open>setTimeout\<close>. Handles are the positive integers the
  host hands out, so a stored handle is always truthy: \<^verbatim>\<open>tapTimeout\<close> is \<open>None\<close> for
  \<^verbatim>\<open>null\<close> and \<open>Some h\<close> for a handle.
\<close>

type_synonym Timer = "nat \<times> int \<times> int"

text \<open>
  The handler object (\<open>state\<close>, \<open>lastTouchTime\<close>, \<open>handlers\<close>) and the part of the host it
  acts on: pending timers, the next free timer handle, the callbacks invoked so far, and
  the events whose default action was prevented so far.
\<close>

record World =
  state :: GestureState
  lastTouchTime :: int
  handlers :: Handlers
  timers :: "Timer list"
  nextTimerId :: nat
  calls :: "Call list"
  prevented :: "Event list"

subsection \<open>Host operations\<close>

definition clearTimeout :: "nat \<Rightarrow> World \<Rightarrow> World" where
  "clearTimeout h w = w\<lparr>timers := filter (\<lambda>t. fst t \<noteq> h) (timers w)\<rparr>"

definition setTimeout :: "int \<Rightarrow> int \<Rightarrow> int \<Rightarrow> World \<Rightarrow> nat \<times> World" where
  "setTimeout tapX delay now w =
     (nextTimerId w,
      w\<lparr>timers := timers w @ [(nextTimerId w, now + delay, tapX)],
        nextTimerId := Suc (nextTimerId w)\<rparr>)"

definition invoke :: "Call \<Rightarrow> World \<Rightarrow> World" where
  "invoke c w = w\<lparr>calls := calls w @ [c]\<rparr>"

definition preventDefault :: "Event \<Rightarrow> World \<Rightarrow> World" where
  "preventDefault e w = w\<lparr>prevented := prevented w @ [e]\<rparr>"

subsection \<open>class GestureHandler\<close>

definition createInitialState :: GestureState where
  "createInitialState =
     \<lparr>startX = 0, startY = 0, lastX = 0, accumulatedDistance = 0, isDragging = False,
      hasActuallyDragged = False, lastTapTime = 0, tapTimeout = None\<rparr>"

definition newGestureHandler :: World where
  "newGestureHandler =
     \<lparr>state = createInitialState, lastTouchTime = 0,
      handlers = \<lparr>onSwipe = None, onDrag = None, onTap = None, onDoubleTap = None\<rparr>,
      timers = [], nextTimerId = 1, calls = [], prevented = []\<rparr>"

definition reset :: "World \<Rightarrow> World" where
  "reset w =
     (let w1 = (case tapTimeout (state w) of Some h \<Rightarrow> clearTimeout h w | None \<Rightarrow> w)
      in w1\<lparr>state := createInitialState\<rparr>)"

text \<open>
  \<^verbatim>\<open>{ ...this.handlers, ...handlers }\<close>: a slot the argument provides replaces the old one;
  \<open>None\<close> in the argument stands for a key it does not have.
\<close>

definition override :: "'a option \<Rightarrow> 'a option \<Rightarrow> 'a option" where
  "override old new = (case new of Some f \<Rightarrow> Some f | None \<Rightarrow> old)"

definition setHandlers :: "Handlers \<Rightarrow> World \<Rightarrow> World" where
  "setHandlers hs w =
     w\<lparr>handlers :=
         \<lparr>onSwipe = override (onSwipe (handlers w)) (onSwipe hs),
          onDrag = override (onDrag (handlers w)) (onDrag hs),
          onTap = override (onTap (handlers w)) (onTap hs),
          onDoubleTap = override (onDoubleTap (handlers w)) (onDoubleTap hs)\<rparr>\<rparr>"

fun getEventCoordinates :: "Event \<Rightarrow> Coords" where
  "getEventCoordinates (TouchEvent tgt p) =
     \<lparr>coordX = screenX p, coordY = screenY p, coordClientX = clientX p\<rparr>"
| "getEventCoordinates (MouseEvent tgt p) =
     \<lparr>coordX = screenX p, coordY = screenY p, coordClientX = clientX p\<rparr>"

definition handleStart :: "Event \<Rightarrow> World \<Rightarrow> World" where
  "handleStart event w =
     (let coords = getEventCoordinates event
      in w\<lparr>state := (state w)\<lparr>startX := coordX coords, startY := coordY coords,
             lastX := coordX coords, accumulatedDistance := 0, isDragging := True,
             hasActuallyDragged := False\<rparr>\<rparr>)"

text \<open>
  \<open>handleMove\<close> returns what the method returns: \<^verbatim>\<open>null\<close>, the object
  \<^verbatim>\<open>{ preventDefault: true }\<close>, or whatever \<^verbatim>\<open>onSwipe\<close> returned; \<open>Thrown\<close> when
  \<^verbatim>\<open>onSwipe\<close> threw. The state written before the callback ran stays written.
\<close>

definition handleMove :: "Event \<Rightarrow> World \<Rightarrow> JsValue Completion \<times> World" where
  "handleMove event w =
     (if \<not> isDragging (state w) then (Returned JsNull, w)
      else
        let coords = getEventCoordinates event;
            deltaX = coordX coords - startX (state w);
            deltaY = coordY coords - startY (state w);
            w1 = (if abs deltaX > MOVEMENT_DETECTION_THRESHOLD
                     \<or> abs deltaY > MOVEMENT_DETECTION_THRESHOLD
                  then w\<lparr>state := (state w)\<lparr>hasActuallyDragged := True\<rparr>\<rparr> else w)
        in if abs deltaX > abs deltaY then
             let movement = coordX coords - lastX (state w1);
                 w2 = w1\<lparr>state := (state w1)\<lparr>accumulatedDistance :=
                         accumulatedDistance (state w1) + movement\<rparr>\<rparr>
             in if abs (accumulatedDistance (state w2)) \<ge> SWIPE_THRESHOLD then
                  let direction = (if accumulatedDistance (state w2) > 0 then - 1 else 1);
                      w3 = w2\<lparr>state := (state w2)\<lparr>accumulatedDistance := 0,
                              lastX := coordX coords\<rparr>\<rparr>
                  in (case onSwipe (handlers w3) of
                        Some f \<Rightarrow> (f direction, invoke (Swipe direction) w3)
                      | None \<Rightarrow>
                          (Returned (JsObject True),
                           w3\<lparr>state := (state w3)\<lparr>lastX := coordX coords\<rparr>\<rparr>))
                else (Returned (JsObject True),
                      w2\<lparr>state := (state w2)\<lparr>lastX := coordX coords\<rparr>\<rparr>)
           else (Returned JsNull, w1))"

text \<open>
  \<open>handleEnd\<close> takes the value of \<^verbatim>\<open>new Date().getTime()\<close> as \<open>currentTime\<close>. The timer
  of the single-tap path is scheduled at that same clock value.
\<close>

definition endGesture :: "string \<Rightarrow> int \<Rightarrow> World \<Rightarrow> string option Completion \<times> World" where
  "endGesture kind currentTime w =
     (let w1 = reset w
      in (Returned (Some kind), w1\<lparr>state := (state w1)\<lparr>lastTapTime := currentTime\<rparr>\<rparr>))"

definition handleEnd :: "Event \<Rightarrow> int \<Rightarrow> World \<Rightarrow> string option Completion \<times> World" where
  "handleEnd event currentTime w =
     (if \<not> isDragging (state w) then (Returned None, w)
      else
        let coords = getEventCoordinates event;
            timeSinceLastTap = currentTime - lastTapTime (state w)
        in if hasActuallyDragged (state w) then
             let dragDistance = coordX coords - startX (state w)
             in (case (if abs dragDistance > DRAG_THRESHOLD then onDrag (handlers w) else None) of
                   Some f \<Rightarrow>
                     let direction = (if dragDistance > 0 then - 1 else 1);
                         w1 = invoke (Drag direction) w
                     in (case f direction of
                           Thrown \<Rightarrow> (Thrown, w1)
                         | Returned v \<Rightarrow> endGesture ''drag'' currentTime w1)
                 | None \<Rightarrow> endGesture ''drag'' currentTime w)
           else if timeSinceLastTap < TAP_DELAY \<and> timeSinceLastTap > 0 then
             let w1 = (case tapTimeout (state w) of
                         Some h \<Rightarrow> (let w' = clearTimeout h w
                                    in w'\<lparr>state := (state w')\<lparr>tapTimeout := None\<rparr>\<rparr>)
                       | None \<Rightarrow> w)
             in (case onDoubleTap (handlers w1) of
                   Some f \<Rightarrow>
                     let w2 = invoke DoubleTap w1
                     in (case f () of
                           Thrown \<Rightarrow> (Thrown, w2)
                         | Returned v \<Rightarrow> endGesture ''double-tap'' currentTime w2)
                 | None \<Rightarrow> endGesture ''double-tap'' currentTime w1)
           else
             let w1 = (case tapTimeout (state w) of Some h \<Rightarrow> clearTimeout h w | None \<Rightarrow> w);
                 (h, w2) = setTimeout (coordClientX coords) TAP_DELAY currentTime w1
             in (Returned (Some ''tap''),
                 w2\<lparr>state := (state w2)\<lparr>tapTimeout := Some h, lastTapTime := currentTime,
                        isDragging := False, accumulatedDistance := 0\<rparr>\<rparr>))"

text \<open>
  The closure passed to \<^verbatim>\<open>setTimeout\<close>: it reads \<^verbatim>\<open>this.handlers\<close> and writes
  \<^verbatim>\<open>this.state\<close> as they are when the timer fires.
\<close>

definition tapTimerCallback :: "int \<Rightarrow> World \<Rightarrow> unit Completion \<times> World" where
  "tapTimerCallback tapX w =
     (case onTap (handlers w) of
        Some f \<Rightarrow>
          let w1 = invoke (Tap tapX) w
          in (case f tapX of
                Thrown \<Rightarrow> (Thrown, w1)
              | Returned v \<Rightarrow> (Returned (), w1\<lparr>state := (state w1)\<lparr>tapTimeout := None\<rparr>\<rparr>))
      | None \<Rightarrow> (Returned (), w\<lparr>state := (state w)\<lparr>tapTimeout := None\<rparr>\<rparr>))"

text \<open>
  The host fires a pending timer once its delay has elapsed: the timer leaves the table and
  its callback runs. A handle that is not pending, or not yet due, does nothing.
\<close>

definition fireTimer :: "nat \<Rightarrow> int \<Rightarrow> World \<Rightarrow> unit Completion \<times> World" where
  "fireTimer h now w =
     (case find (\<lambda>t. fst t = h) (timers w) of
        Some (h', due, tapX) \<Rightarrow>
          if due \<le> now then tapTimerCallback tapX (clearTimeout h w) else (Returned (), w)
      | None \<Rightarrow> (Returned (), w))"

subsection \<open>createGestureHandler and its listeners\<close>

definition createGestureHandler :: "Handlers \<Rightarrow> World" where
  "createGestureHandler callbacks = setHandlers callbacks newGestureHandler"

text \<open>\<^verbatim>\<open>shouldIgnoreEvent && shouldIgnoreEvent(e)\<close>, the predicate being optional.\<close>

definition ignored :: "(Event \<Rightarrow> bool) option \<Rightarrow> Event \<Rightarrow> bool" where
  "ignored shouldIgnoreEvent e = (case shouldIgnoreEvent of Some p \<Rightarrow> p e | None \<Rightarrow> False)"

text \<open>\<^verbatim>\<open>result && result.preventDefault\<close> in the touchmove listener.\<close>

fun wantsPreventDefault :: "JsValue \<Rightarrow> bool" where
  "wantsPreventDefault (JsObject b) = b"
| "wantsPreventDefault JsNull = False"
| "wantsPreventDefault JsUndefined = False"

text \<open>
  Each listener takes the clock value \<open>now\<close> of its dispatch and returns how it completed
  and the world it leaves. The touchend listener reads the clock twice, in \<open>handleEnd\<close> and
  for \<open>lastTouchTime\<close>; both reads of one dispatch see the same value.
\<close>

definition touchstart :: "(Event \<Rightarrow> bool) option \<Rightarrow> Event \<Rightarrow> World \<Rightarrow> unit Completion \<times> World" where
  "touchstart shouldIgnoreEvent e w =
     (if ignored shouldIgnoreEvent e then (Returned (), w)
      else (Returned (), handleStart e w))"

definition touchmove :: "(Event \<Rightarrow> bool) option \<Rightarrow> Event \<Rightarrow> World \<Rightarrow> unit Completion \<times> World" where
  "touchmove shouldIgnoreEvent e w =
     (if ignored shouldIgnoreEvent e then (Returned (), w)
      else (case handleMove e w of
              (Thrown, w1) \<Rightarrow> (Thrown, w1)
            | (Returned result, w1) \<Rightarrow>
                (Returned (), if wantsPreventDefault result then preventDefault e w1 else w1)))"

definition touchend :: "(Event \<Rightarrow> bool) option \<Rightarrow> Event \<Rightarrow> int \<Rightarrow> World \<Rightarrow> unit Completion \<times> World" where
  "touchend shouldIgnoreEvent e now w =
     (if ignored shouldIgnoreEvent e then (Returned (), w)
      else (case handleEnd e now w of
              (Thrown, w1) \<Rightarrow> (Thrown, w1)
            | (Returned result, w1) \<Rightarrow> (Returned (), w1\<lparr>lastTouchTime := now\<rparr>)))"

definition mousedown :: "(Event \<Rightarrow> bool) option \<Rightarrow> Event \<Rightarrow> int \<Rightarrow> World \<Rightarrow> unit Completion \<times> World" where
  "mousedown shouldIgnoreEvent e now w =
     (if ignored shouldIgnoreEvent e then (Returned (), w)
      else if now - lastTouchTime w < 500 then (Returned (), w)
      else (Returned (), handleStart e (preventDefault e w)))"

definition mousemove :: "(Event \<Rightarrow> bool) option \<Rightarrow> Event \<Rightarrow> World \<Rightarrow> unit Completion \<times> World" where
  "mousemove shouldIgnoreEvent e w =
     (if ignored shouldIgnoreEvent e then (Returned (), w)
      else (case handleMove e w of
              (Thrown, w1) \<Rightarrow> (Thrown, w1)
            | (Returned result, w1) \<Rightarrow> (Returned (), w1)))"

definition mouseup :: "(Event \<Rightarrow> bool) option \<Rightarrow> Event \<Rightarrow> int \<Rightarrow> World \<Rightarrow> unit Completion \<times> World" where
  "mouseup shouldIgnoreEvent e now w =
     (if ignored shouldIgnoreEvent e then (Returned (), w)
      else if now - lastTouchTime w < 500 then (Returned (), w)
      else (case handleEnd e now w of
              (Thrown, w1) \<Rightarrow> (Thrown, w1)
            | (Returned result, w1) \<Rightarrow> (Returned (), w1)))"

definition dblclick :: "Handlers \<Rightarrow> (Event \<Rightarrow> bool) option \<Rightarrow> Event \<Rightarrow> int \<Rightarrow> World \<Rightarrow> unit Completion \<times> World" where
  "dblclick callbacks shouldIgnoreEvent e now w =
     (if ignored shouldIgnoreEvent e then (Returned (), w)
      else if now - lastTouchTime w < 500 then (Returned (), w)
      else
        let w1 = preventDefault e w
        in (case onDoubleTap callbacks of
              Some f \<Rightarrow>
                let w2 = invoke DoubleTap w1
                in (case f () of Thrown \<Rightarrow> (Thrown, w2) | Returned v \<Rightarrow> (Returned (), w2))
            | None \<Rightarrow> (Returned (), w1)))"

subsection \<open>The event loop\<close>

text \<open>
  What the host delivers: a DOM event to its listener, or the firing of a timer. An
  exception that escapes a listener or a timer callback ends that dispatch only; the host
  goes on with the next input.
\<close>

datatype Input =
    TouchStart Event
  | TouchMove Event
  | TouchEnd Event
  | MouseDown Event
  | MouseMove Event
  | MouseUp Event
  | DblClick Event
  | TimerFires nat

fun dispatch :: "Handlers \<Rightarrow> (Event \<Rightarrow> bool) option \<Rightarrow> int \<times> Input \<Rightarrow> World \<Rightarrow> unit Completion \<times> World" where
  "dispatch callbacks ign (now, TouchStart e) w = touchstart ign e w"
| "dispatch callbacks ign (now, TouchMove e) w = touchmove ign e w"
| "dispatch callbacks ign (now, TouchEnd e) w = touchend ign e now w"
| "dispatch callbacks ign (now, MouseDown e) w = mousedown ign e now w"
| "dispatch callbacks ign (now, MouseMove e) w = mousemove ign e w"
| "dispatch callbacks ign (now, MouseUp e) w = mouseup ign e now w"
| "dispatch callbacks ign (now, DblClick e) w = dblclick callbacks ign e now w"
| "dispatch callbacks ign (now, TimerFires h) w = fireTimer h now w"

fun run :: "Handlers \<Rightarrow> (Event \<Rightarrow> bool) option \<Rightarrow> (int \<times> Input) list \<Rightarrow> World \<Rightarrow> World" where
  "run callbacks ign [] w = w"
| "run callbacks ign (i # is) w = run callbacks ign is (snd (dispatch callbacks ign i w))"

text \<open>A run of \<open>handleMove\<close> calls of one gesture, each exception ending its own call only.\<close>

fun handleMoves :: "Event list \<Rightarrow> World \<Rightarrow> World" where
  "handleMoves [] w = w"
| "handleMoves (e # es) w = handleMoves es (snd (handleMove e w))"

subsection \<open>The callbacks of the application\<close>

text \<open>
  \<^verbatim>\<open>modules/eventHandlers.js\<close> registers four arrow functions with block bodies and no
  \<^verbatim>\<open>return\<close>: each one returns \<^verbatim>\<open>undefined\<close>.
\<close>

definition appCallbacks :: Handlers where
  "appCallbacks =
     \<lparr>onSwipe = Some (\<lambda>direction. Returned JsUndefined),
      onDrag = Some (\<lambda>direction. Returned JsUndefined),
      onTap = Some (\<lambda>tapX. Returned JsUndefined),
      onDoubleTap = Some (\<lambda>u. Returned JsUndefined)\<rparr>"

text \<open>A set of callbacks every one of which throws, for the behaviour under exceptions.\<close>

definition throwingCallbacks :: Handlers where
  "throwingCallbacks =
     \<lparr>onSwipe = Some (\<lambda>direction. Thrown),
      onDrag = Some (\<lambda>direction. Thrown),
      onTap = Some (\<lambda>tapX. Thrown),
      onDoubleTap = Some (\<lambda>u. Thrown)\<rparr>"

text \<open>Events at a screen position, on the main container (target 0).\<close>

definition touchAt :: "int \<Rightarrow> int \<Rightarrow> Event" where
  "touchAt px py = TouchEvent 0 \<lparr>screenX = px, screenY = py, clientX = px\<rparr>"

definition mouseAt :: "int \<Rightarrow> int \<Rightarrow> Event" where
  "mouseAt px py = MouseEvent 0 \<lparr>screenX = px, screenY = py, clientX = px\<rparr>"

subsection \<open>The swipe rule in the specification's words\<close>

text \<open>
  Section 4.1 of the specification, \<^verbatim>\<open>handleMove\<close> steps 3 and 4, over the x coordinates
  of a run of horizontally dominant samples: add each sample's displacement from the
  previous sample to the accumulator; when the accumulator's magnitude reaches the swipe
  threshold, emit direction \<open>-1\<close> if it is positive and \<open>+1\<close> otherwise, and reset it to 0.
  The result lists the directions of the swipes fired, in order.
\<close>

fun specSwipes :: "int \<Rightarrow> int \<Rightarrow> int list \<Rightarrow> int list" where
  "specSwipes acc prevX [] = []"
| "specSwipes acc prevX (px # pxs) =
     (if abs (acc + (px - prevX)) \<ge> SWIPE_THRESHOLD
      then (if acc + (px - prevX) > 0 then - 1 else 1) # specSwipes 0 px pxs
      else specSwipes (acc + (px - prevX)) px pxs)"

section \<open>Properties\<close>

lemmas threshold_defs =
  SWIPE_THRESHOLD_def DRAG_THRESHOLD_def MOVEMENT_DETECTION_THRESHOLD_def TAP_DELAY_def

lemmas scenario_defs = threshold_defs
  clearTimeout_def setTimeout_def invoke_def preventDefault_def createInitialState_def
  newGestureHandler_def reset_def override_def setHandlers_def handleStart_def handleMove_def
  endGesture_def handleEnd_def tapTimerCallback_def fireTimer_def createGestureHandler_def
  ignored_def touchstart_def touchmove_def touchend_def mousedown_def mousemove_def mouseup_def
  dblclick_def appCallbacks_def throwingCallbacks_def touchAt_def mouseAt_def Let_def

subsection \<open>What handleMove leaves alone\<close>

lemma handleMove_preserves:
  "isDragging (state (snd (handleMove e w))) = isDragging (state w)
   \<and> handlers (snd (handleMove e w)) = handlers w
   \<and> startX (state (snd (handleMove e w))) = startX (state w)
   \<and> startY (state (snd (handleMove e w))) = startY (state w)"
  by (simp add: handleMove_def invoke_def Let_def split: option.splits)

lemma handleMoves_preserves:
  "isDragging (state (handleMoves es w)) = isDragging (state w)
   \<and> handlers (handleMoves es w) = handlers w
   \<and> startX (state (handleMoves es w)) = startX (state w)
   \<and> startY (state (handleMoves es w)) = startY (state w)"
  by (induction es arbitrary: w) (simp_all add: handleMove_preserves)

lemma handleMove_keeps_timers:
  "timers (snd (handleMove e w)) = timers w
   \<and> tapTimeout (state (snd (handleMove e w))) = tapTimeout (state w)
   \<and> nextTimerId (snd (handleMove e w)) = nextTimerId w
   \<and> lastTapTime (state (snd (handleMove e w))) = lastTapTime (state w)"
  by (simp add: handleMove_def invoke_def Let_def split: option.splits)

lemma handleMoves_keeps_timers:
  "timers (handleMoves es w) = timers w
   \<and> tapTimeout (state (handleMoves es w)) = tapTimeout (state w)
   \<and> nextTimerId (handleMoves es w) = nextTimerId w
   \<and> lastTapTime (state (handleMoves es w)) = lastTapTime (state w)"
  by (induction es arbitrary: w) (simp_all add: handleMove_keeps_timers)

subsection \<open>Ending a gesture that moved but travelled no further than the drag threshold\<close>

text \<open>
  C10. When the gesture is active and \<open>hasActuallyDragged\<close> is set, but the net horizontal
  displacement \<open>|endX - startX|\<close> is at most \<open>DRAG_THRESHOLD\<close>, \<open>handleEnd\<close> returns
  \<^verbatim>\<open>'drag'\<close>, invokes no callback (the call log is unchanged), replaces the state by the
  initial state, cancels the pending tap timer if there is one, and records the end time in
  \<open>lastTapTime\<close>.
\<close>

theorem handleEnd_short_drag:
  assumes "isDragging (state w)" and "hasActuallyDragged (state w)"
    and "abs (coordX (getEventCoordinates event) - startX (state w)) \<le> DRAG_THRESHOLD"
  shows "handleEnd event currentTime w =
           (Returned (Some ''drag''),
            (reset w)\<lparr>state := createInitialState\<lparr>lastTapTime := currentTime\<rparr>\<rparr>)
         \<and> calls (reset w) = calls w
         \<and> (case tapTimeout (state w) of
               Some h \<Rightarrow> h \<notin> fst ` set (timers (reset w))
             | None \<Rightarrow> timers (reset w) = timers w)"
  using assms
  by (auto simp add: handleEnd_def endGesture_def reset_def clearTimeout_def Let_def
      split: option.splits)

text \<open>
  The theorem at a gesture that follows a pending tap: a tap at 1000 ms leaves timer 1
  pending; the next gesture moves 10 px and ends at 1100 ms. The timer is cancelled and no
  callback is logged.
\<close>

theorem handleEnd_short_drag_witness:
  "handleEnd (touchAt 10 0) 1100
     (run appCallbacks None
        [(1000, TouchStart (touchAt 0 0)), (1000, TouchEnd (touchAt 0 0)),
         (1050, TouchStart (touchAt 0 0)), (1060, TouchMove (touchAt 10 0))]
        (createGestureHandler appCallbacks))
   = (Returned (Some ''drag''),
      (createGestureHandler appCallbacks)
        \<lparr>state := createInitialState\<lparr>lastTapTime := 1100\<rparr>, lastTouchTime := 1000,
         nextTimerId := 2, prevented := [touchAt 10 0]\<rparr>)"
proof -
  let ?w = "run appCallbacks None
        [(1000, TouchStart (touchAt 0 0)), (1000, TouchEnd (touchAt 0 0)),
         (1050, TouchStart (touchAt 0 0)), (1060, TouchMove (touchAt 10 0))]
        (createGestureHandler appCallbacks)"
  have a: "isDragging (state ?w)" by (simp add: scenario_defs)
  have b: "hasActuallyDragged (state ?w)" by (simp add: scenario_defs)
  have c: "abs (coordX (getEventCoordinates (touchAt 10 0)) - startX (state ?w)) \<le> DRAG_THRESHOLD"
    by (simp add: scenario_defs)
  have d: "reset ?w = (createGestureHandler appCallbacks)
        \<lparr>state := createInitialState, lastTouchTime := 1000,
         nextTimerId := 2, prevented := [touchAt 10 0]\<rparr>"
    by (simp add: scenario_defs)
  show ?thesis using handleEnd_short_drag [OF a b c, of 1100] d by simp
qed

subsection \<open>Vertical moves\<close>

lemma handleMove_vertical:
  assumes "\<not> abs (coordX (getEventCoordinates e) - startX (state w))
             > abs (coordY (getEventCoordinates e) - startY (state w))"
  shows "fst (handleMove e w) = Returned JsNull
       \<and> calls (snd (handleMove e w)) = calls w
       \<and> accumulatedDistance (state (snd (handleMove e w))) = accumulatedDistance (state w)
       \<and> startX (state (snd (handleMove e w))) = startX (state w)
       \<and> startY (state (snd (handleMove e w))) = startY (state w)"
  using assms by (simp add: handleMove_def Let_def)

lemma handleMoves_vertical:
  assumes "\<forall>e\<in>set es. abs (coordY (getEventCoordinates e) - startY (state w))
             > abs (coordX (getEventCoordinates e) - startX (state w))"
  shows "calls (handleMoves es w) = calls w
       \<and> accumulatedDistance (state (handleMoves es w)) = accumulatedDistance (state w)"
  using assms
proof (induction es arbitrary: w)
  case Nil
  then show ?case by simp
next
  case (Cons e es)
  have v: "\<not> abs (coordX (getEventCoordinates e) - startX (state w))
             > abs (coordY (getEventCoordinates e) - startY (state w))"
    using Cons.prems by simp
  note hm = handleMove_vertical [OF v]
  have "\<forall>e'\<in>set es. abs (coordY (getEventCoordinates e') - startY (state (snd (handleMove e w))))
             > abs (coordX (getEventCoordinates e') - startX (state (snd (handleMove e w))))"
    using Cons.prems hm by simp
  from Cons.IH [OF this] hm show ?case by simp
qed

text \<open>
  C9. After \<open>handleStart\<close>, any sequence of moves each of which has \<open>|deltaY| > |deltaX|\<close>
  invokes no callback, so no \<open>onSwipe\<close>, and leaves \<open>accumulatedDistance\<close> at 0. Every
  prefix of such a sequence is such a sequence, so this holds after every sample.
\<close>

theorem vertical_moves_never_swipe:
  assumes "\<forall>e\<in>set es. abs (coordY (getEventCoordinates e) - coordY (getEventCoordinates start))
             > abs (coordX (getEventCoordinates e) - coordX (getEventCoordinates start))"
  shows "calls (handleMoves es (handleStart start w)) = calls w
       \<and> accumulatedDistance (state (handleMoves es (handleStart start w))) = 0"
proof -
  have "\<forall>e\<in>set es. abs (coordY (getEventCoordinates e) - startY (state (handleStart start w)))
             > abs (coordX (getEventCoordinates e) - startX (state (handleStart start w)))"
    using assms by (simp add: handleStart_def Let_def)
  from handleMoves_vertical [OF this] show ?thesis
    by (simp add: handleStart_def Let_def)
qed

theorem vertical_moves_never_swipe_witness:
  "calls (handleMoves [touchAt 3 30, touchAt 10 60, touchAt (- 25) 90]
            (handleStart (touchAt 0 0) (createGestureHandler appCallbacks))) = []
   \<and> accumulatedDistance (state (handleMoves [touchAt 3 30, touchAt 10 60, touchAt (- 25) 90]
            (handleStart (touchAt 0 0) (createGestureHandler appCallbacks)))) = 0"
proof -
  have h: "\<forall>e\<in>set [touchAt 3 30, touchAt 10 60, touchAt (- 25) 90].
             abs (coordY (getEventCoordinates e) - coordY (getEventCoordinates (touchAt 0 0)))
             > abs (coordX (getEventCoordinates e) - coordX (getEventCoordinates (touchAt 0 0)))"
    by (simp add: touchAt_def)
  have c: "calls (createGestureHandler appCallbacks) = []"
    by (simp add: scenario_defs)
  show ?thesis
    using vertical_moves_never_swipe [OF h, of "createGestureHandler appCallbacks"] c by simp
qed

subsection \<open>What handleMove returns\<close>

text \<open>
  C2, as stated, fails when a swipe fires and \<open>onSwipe\<close> is registered: \<open>handleMove\<close> then
  returns the callback's own result. With the application's callbacks that result is
  \<^verbatim>\<open>undefined\<close>: a 30 px move to the right is horizontally dominant, fires the swipe, and
  the touchmove listener does not prevent the default action.
\<close>

theorem handleMove_swipe_result_counterexample:
  "isDragging (state (handleStart (touchAt 0 0) (createGestureHandler appCallbacks)))
   \<and> abs (coordX (getEventCoordinates (touchAt 30 0))
            - startX (state (handleStart (touchAt 0 0) (createGestureHandler appCallbacks))))
       > abs (coordY (getEventCoordinates (touchAt 30 0))
            - startY (state (handleStart (touchAt 0 0) (createGestureHandler appCallbacks))))
   \<and> fst (handleMove (touchAt 30 0) (handleStart (touchAt 0 0) (createGestureHandler appCallbacks)))
       = Returned JsUndefined
   \<and> calls (snd (handleMove (touchAt 30 0)
               (handleStart (touchAt 0 0) (createGestureHandler appCallbacks))))
       = [Swipe (- 1)]
   \<and> \<not> wantsPreventDefault JsUndefined
   \<and> prevented (snd (touchmove None (touchAt 30 0)
               (handleStart (touchAt 0 0) (createGestureHandler appCallbacks)))) = []"
  by (simp add: scenario_defs)

text \<open>
  C2, amended. While a gesture is active: a vertically dominant move returns \<^verbatim>\<open>null\<close>; a
  horizontally dominant move returns \<^verbatim>\<open>{ preventDefault: true }\<close> when no swipe fires in
  this call or no \<open>onSwipe\<close> is registered; when a swipe fires and \<open>onSwipe\<close> is registered,
  the call returns (or throws) whatever \<open>onSwipe\<close> does at the swipe's direction.
\<close>

theorem handleMove_suppression_signal:
  assumes "isDragging (state w)"
  shows "fst (handleMove e w) =
          (if abs (coordX (getEventCoordinates e) - startX (state w))
                > abs (coordY (getEventCoordinates e) - startY (state w))
           then (if abs (accumulatedDistance (state w)
                          + (coordX (getEventCoordinates e) - lastX (state w)))
                      \<ge> SWIPE_THRESHOLD
                 then (case onSwipe (handlers w) of
                         Some f \<Rightarrow>
                           f (if accumulatedDistance (state w)
                                  + (coordX (getEventCoordinates e) - lastX (state w)) > 0
                              then - 1 else 1)
                       | None \<Rightarrow> Returned (JsObject True))
                 else Returned (JsObject True))
           else Returned JsNull)"
  using assms
  by (simp add: handleMove_def invoke_def Let_def split: option.splits)

theorem handleMove_suppression_signal_witness:
  "fst (handleMove (touchAt 10 0) (handleStart (touchAt 0 0) (createGestureHandler appCallbacks)))
     = Returned (JsObject True)
   \<and> fst (handleMove (touchAt 0 10) (handleStart (touchAt 0 0) (createGestureHandler appCallbacks)))
     = Returned JsNull"
proof -
  let ?w = "handleStart (touchAt 0 0) (createGestureHandler appCallbacks)"
  have a: "isDragging (state ?w)" by (simp add: scenario_defs)
  have s: "state ?w = createInitialState\<lparr>isDragging := True\<rparr>"
    by (simp add: scenario_defs)
  show ?thesis
    using handleMove_suppression_signal [OF a, of "touchAt 10 0"]
      handleMove_suppression_signal [OF a, of "touchAt 0 10"] s
    by (simp add: touchAt_def createInitialState_def SWIPE_THRESHOLD_def)
qed

subsection \<open>Starting a gesture while a tap is pending\<close>

text \<open>
  C1, as stated, fails: \<open>handleStart\<close> does not touch the timer. A tap ends at 1000 ms and
  leaves timer 1 pending; a new gesture starts at 1100 ms and is still held at 1300 ms, when
  the timer comes due and \<open>onTap\<close> is invoked for the earlier tap.
\<close>

theorem handleStart_pending_tap_counterexample:
  "tapTimeout (state (run appCallbacks None
       [(1000, TouchStart (touchAt 7 0)), (1000, TouchEnd (touchAt 7 0))]
       (createGestureHandler appCallbacks))) = Some 1
   \<and> timers (run appCallbacks None
       [(1000, TouchStart (touchAt 7 0)), (1000, TouchEnd (touchAt 7 0)),
        (1100, TouchStart (touchAt 7 0))]
       (createGestureHandler appCallbacks)) = [(1, 1300, 7)]
   \<and> calls (run appCallbacks None
       [(1000, TouchStart (touchAt 7 0)), (1000, TouchEnd (touchAt 7 0)),
        (1100, TouchStart (touchAt 7 0)), (1300, TimerFires 1)]
       (createGestureHandler appCallbacks)) = [Tap 7]"
  by (simp add: scenario_defs)

lemma fireTimer_due_invokes_onTap:
  assumes "find (\<lambda>t. fst t = h) (timers w) = Some (h, due, tapX)" and "due \<le> now"
    and "onTap (handlers w) = Some f"
  shows "calls (snd (fireTimer h now w)) = calls w @ [Tap tapX]"
  using assms
  by (auto simp add: fireTimer_def tapTimerCallback_def clearTimeout_def invoke_def Let_def
      split: Completion.splits)

lemma handleEnd_cancels_pending:
  assumes "isDragging (state w)" and "tapTimeout (state w) = Some h" and "h < nextTimerId w"
    and "fst (handleEnd e t w) \<noteq> Thrown"
  shows "h \<notin> fst ` set (timers (snd (handleEnd e t w)))"
  using assms
  by (auto simp add: handleEnd_def endGesture_def reset_def clearTimeout_def
      setTimeout_def invoke_def Let_def split: option.splits Completion.splits if_splits)

text \<open>
  C1, amended. \<open>handleStart\<close> leaves the pending tap as it is: the timer table,
  \<open>tapTimeout\<close>, \<open>lastTapTime\<close> and the call log are unchanged, so no callback runs in
  \<open>handleStart\<close>. The \<open>handleMove\<close> calls of the new gesture, whatever they are, leave the
  timer pending too. When the timer comes due during the new gesture, \<open>onTap\<close> is invoked
  with the \<open>clientX\<close> of the earlier tap. The pending timer is cancelled by the
  \<open>handleEnd\<close> of the new gesture, after any moves and so on whichever of its three paths
  the gesture takes, when that \<open>handleEnd\<close> does not end in an exception (timer handles
  being the ones the host has handed out so far).
\<close>

theorem handleStart_keeps_pending_tap:
  "timers (handleStart e w) = timers w
   \<and> tapTimeout (state (handleStart e w)) = tapTimeout (state w)
   \<and> lastTapTime (state (handleStart e w)) = lastTapTime (state w)
   \<and> calls (handleStart e w) = calls w
   \<and> timers (handleMoves es (handleStart e w)) = timers w
   \<and> tapTimeout (state (handleMoves es (handleStart e w))) = tapTimeout (state w)
   \<and> (find (\<lambda>t. fst t = h) (timers w) = Some (h, due, tapX) \<and> due \<le> now
        \<and> onTap (handlers w) = Some f
      \<longrightarrow> calls (snd (fireTimer h now (handleMoves es (handleStart e w))))
            = calls (handleMoves es (handleStart e w)) @ [Tap tapX])
   \<and> (tapTimeout (state w) = Some h \<and> h < nextTimerId w
        \<and> fst (handleEnd e' t (handleMoves es (handleStart e w))) \<noteq> Thrown
      \<longrightarrow> h \<notin> fst ` set (timers (snd (handleEnd e' t (handleMoves es (handleStart e w))))))"
proof -
  let ?s = "handleStart e w"
  let ?g = "handleMoves es ?s"
  have s: "timers ?s = timers w \<and> tapTimeout (state ?s) = tapTimeout (state w)
      \<and> lastTapTime (state ?s) = lastTapTime (state w) \<and> calls ?s = calls w
      \<and> nextTimerId ?s = nextTimerId w \<and> handlers ?s = handlers w \<and> isDragging (state ?s)"
    by (simp add: handleStart_def Let_def)
  note k = handleMoves_keeps_timers [of es ?s]
  note p = handleMoves_preserves [of es ?s]
  have fire: "calls (snd (fireTimer h now ?g)) = calls ?g @ [Tap tapX]"
    if "find (\<lambda>t. fst t = h) (timers w) = Some (h, due, tapX)" "due \<le> now"
      "onTap (handlers w) = Some f"
  proof (rule fireTimer_due_invokes_onTap)
    show "find (\<lambda>t. fst t = h) (timers ?g) = Some (h, due, tapX)" using that(1) k s by simp
    show "due \<le> now" by (rule that(2))
    show "onTap (handlers ?g) = Some f" using that(3) p s by simp
  qed
  have cancel: "h \<notin> fst ` set (timers (snd (handleEnd e' t ?g)))"
    if "tapTimeout (state w) = Some h" "h < nextTimerId w" "fst (handleEnd e' t ?g) \<noteq> Thrown"
  proof (rule handleEnd_cancels_pending)
    show "isDragging (state ?g)" using p s by simp
    show "tapTimeout (state ?g) = Some h" using that(1) k s by simp
    show "h < nextTimerId ?g" using that(2) k s by simp
    show "fst (handleEnd e' t ?g) \<noteq> Thrown" by (rule that(3))
  qed
  from s k fire cancel show ?thesis by simp
qed

text \<open>
  The theorem after a tap at 1000 ms that left timer 1 pending. A new gesture starts at
  \<open>(9, 0)\<close> and moves to \<open>(30, 0)\<close>: the timer is still pending, fires \<open>onTap\<close> at
  1300 ms if the gesture is still held, and is cancelled when the gesture ends at 1200 ms
  on the drag path. Without the move, the end at 1200 ms takes the double-tap path and
  the end at 1400 ms the single-tap path; both cancel timer 1.
\<close>

theorem handleStart_keeps_pending_tap_witness:
  "timers (handleMoves [touchAt 30 0] (handleStart (touchAt 9 0)
       (run appCallbacks None
          [(1000, TouchStart (touchAt 7 0)), (1000, TouchEnd (touchAt 7 0))]
          (createGestureHandler appCallbacks)))) = [(1, 1300, 7)]
   \<and> calls (snd (fireTimer 1 1300 (handleMoves [touchAt 30 0] (handleStart (touchAt 9 0)
       (run appCallbacks None
          [(1000, TouchStart (touchAt 7 0)), (1000, TouchEnd (touchAt 7 0))]
          (createGestureHandler appCallbacks)))))) = [Swipe (- 1), Tap 7]
   \<and> fst (handleEnd (touchAt 30 0) 1200 (handleMoves [touchAt 30 0] (handleStart (touchAt 9 0)
       (run appCallbacks None
          [(1000, TouchStart (touchAt 7 0)), (1000, TouchEnd (touchAt 7 0))]
          (createGestureHandler appCallbacks))))) = Returned (Some ''drag'')
   \<and> 1 \<notin> fst ` set (timers (snd (handleEnd (touchAt 30 0) 1200
       (handleMoves [touchAt 30 0] (handleStart (touchAt 9 0)
       (run appCallbacks None
          [(1000, TouchStart (touchAt 7 0)), (1000, TouchEnd (touchAt 7 0))]
          (createGestureHandler appCallbacks)))))))
   \<and> fst (handleEnd (touchAt 9 0) 1200 (handleMoves [] (handleStart (touchAt 9 0)
       (run appCallbacks None
          [(1000, TouchStart (touchAt 7 0)), (1000, TouchEnd (touchAt 7 0))]
          (createGestureHandler appCallbacks))))) = Returned (Some ''double-tap'')
   \<and> 1 \<notin> fst ` set (timers (snd (handleEnd (touchAt 9 0) 1200
       (handleMoves [] (handleStart (touchAt 9 0)
       (run appCallbacks None
          [(1000, TouchStart (touchAt 7 0)), (1000, TouchEnd (touchAt 7 0))]
          (createGestureHandler appCallbacks)))))))
   \<and> fst (handleEnd (touchAt 9 0) 1400 (handleMoves [] (handleStart (touchAt 9 0)
       (run appCallbacks None
          [(1000, TouchStart (touchAt 7 0)), (1000, TouchEnd (touchAt 7 0))]
          (createGestureHandler appCallbacks))))) = Returned (Some ''tap'')
   \<and> 1 \<notin> fst ` set (timers (snd (handleEnd (touchAt 9 0) 1400
       (handleMoves [] (handleStart (touchAt 9 0)
       (run appCallbacks None
          [(1000, TouchStart (touchAt 7 0)), (1000, TouchEnd (touchAt 7 0))]
          (createGestureHandler appCallbacks)))))))"
proof -
  let ?w = "run appCallbacks None
          [(1000, TouchStart (touchAt 7 0)), (1000, TouchEnd (touchAt 7 0))]
          (createGestureHandler appCallbacks)"
  let ?d = "handleMoves [touchAt 30 0] (handleStart (touchAt 9 0) ?w)"
  let ?n = "handleMoves [] (handleStart (touchAt 9 0) ?w)"
  have t: "timers ?w = [(1, 1300, 7)]" by (simp add: scenario_defs)
  have f: "find (\<lambda>t. fst t = 1) (timers ?w) = Some (1, 1300, 7) \<and> (1300::int) \<le> 1300
      \<and> onTap (handlers ?w) = Some (\<lambda>tapX. Returned JsUndefined)"
    by (simp add: scenario_defs)
  have cd: "calls ?d = [Swipe (- 1)]" by (simp add: scenario_defs)
  have rd: "fst (handleEnd (touchAt 30 0) 1200 ?d) = Returned (Some ''drag'')"
    by (simp add: scenario_defs)
  have r2: "fst (handleEnd (touchAt 9 0) 1200 ?n) = Returned (Some ''double-tap'')"
    by (simp add: scenario_defs)
  have r4: "fst (handleEnd (touchAt 9 0) 1400 ?n) = Returned (Some ''tap'')"
    by (simp add: scenario_defs)
  have pd: "tapTimeout (state ?w) = Some 1 \<and> 1 < nextTimerId ?w
      \<and> fst (handleEnd (touchAt 30 0) 1200 ?d) \<noteq> Thrown"
    using rd by (simp add: scenario_defs)
  have p2: "tapTimeout (state ?w) = Some 1 \<and> 1 < nextTimerId ?w
      \<and> fst (handleEnd (touchAt 9 0) 1200 ?n) \<noteq> Thrown"
    using r2 by (simp add: scenario_defs)
  have p4: "tapTimeout (state ?w) = Some 1 \<and> 1 < nextTimerId ?w
      \<and> fst (handleEnd (touchAt 9 0) 1400 ?n) \<noteq> Thrown"
    using r4 by (simp add: scenario_defs)
  note drag = handleStart_keeps_pending_tap [where e = "touchAt 9 0" and w = ?w
      and es = "[touchAt 30 0]" and h = 1 and due = 1300 and tapX = 7 and now = 1300
      and f = "\<lambda>tapX. Returned JsUndefined" and e' = "touchAt 30 0" and t = 1200]
  note dbl = handleStart_keeps_pending_tap [where e = "touchAt 9 0" and w = ?w
      and es = "[]" and h = 1 and e' = "touchAt 9 0" and t = 1200]
  note tap = handleStart_keeps_pending_tap [where e = "touchAt 9 0" and w = ?w
      and es = "[]" and h = 1 and e' = "touchAt 9 0" and t = 1400]
  have q1: "timers ?d = [(1, 1300, 7)]"
    using drag [THEN conjunct2, THEN conjunct2, THEN conjunct2, THEN conjunct2, THEN conjunct1] t
    by (simp only:)
  have q2: "calls (snd (fireTimer 1 1300 ?d)) = [Swipe (- 1), Tap 7]"
    using drag [THEN conjunct2, THEN conjunct2, THEN conjunct2, THEN conjunct2, THEN conjunct2,
        THEN conjunct2, THEN conjunct1, THEN mp, OF f] cd
    by (simp only: append.simps)
  have q3: "1 \<notin> fst ` set (timers (snd (handleEnd (touchAt 30 0) 1200 ?d)))"
    by (rule drag [THEN conjunct2, THEN conjunct2, THEN conjunct2, THEN conjunct2, THEN conjunct2,
        THEN conjunct2, THEN conjunct2, THEN mp, OF pd])
  have q4: "1 \<notin> fst ` set (timers (snd (handleEnd (touchAt 9 0) 1200 ?n)))"
    by (rule dbl [THEN conjunct2, THEN conjunct2, THEN conjunct2, THEN conjunct2, THEN conjunct2,
        THEN conjunct2, THEN conjunct2, THEN mp, OF p2])
  have q5: "1 \<notin> fst ` set (timers (snd (handleEnd (touchAt 9 0) 1400 ?n)))"
    by (rule tap [THEN conjunct2, THEN conjunct2, THEN conjunct2, THEN conjunct2, THEN conjunct2,
        THEN conjunct2, THEN conjunct2, THEN mp, OF p4])
  from q1 q2 rd q3 r2 q4 r4 q5 show ?thesis by (intro conjI)
qed

subsection \<open>When handleEnd reports a double tap\<close>

text \<open>
  What \<open>handleEnd\<close> does: it invokes \<open>onDoubleTap\<close> exactly when the gesture ending now is
  active and tap-eligible (\<open>hasActuallyDragged\<close> false), a handler is registered, and
  \<open>0 < currentTime - lastTapTime < TAP_DELAY\<close>; and every \<open>handleEnd\<close> that returns a
  classification writes its time to \<open>lastTapTime\<close>, the drag path included.
\<close>

lemma handleEnd_double_tap_condition:
  "(calls (snd (handleEnd e t w)) = calls w @ [DoubleTap]
      \<longleftrightarrow> isDragging (state w) \<and> \<not> hasActuallyDragged (state w)
          \<and> 0 < t - lastTapTime (state w) \<and> t - lastTapTime (state w) < TAP_DELAY
          \<and> onDoubleTap (handlers w) \<noteq> None)
   \<and> (fst (handleEnd e t w) = Returned (Some k)
        \<longrightarrow> lastTapTime (state (snd (handleEnd e t w))) = t)"
  by (auto simp add: handleEnd_def endGesture_def reset_def clearTimeout_def setTimeout_def
      invoke_def Let_def split: option.splits Completion.splits if_splits)

text \<open>
  C3. \<open>lastTapTime\<close> is documented as the timestamp of the last tap or click, and the claim
  asks for a tap-eligible predecessor; the drag path of \<open>handleEnd\<close> nevertheless stores
  the end time of a drag there. A gesture that moves 10 px and ends at 1000 ms is
  classified \<^verbatim>\<open>'drag'\<close>, and the single tap that ends at 1100 ms is reported as a
  double tap: \<open>onDoubleTap\<close> is the one callback invoked.
\<close>

theorem drag_then_quick_tap_is_double_tap:
  "fst (handleEnd (touchAt 10 0) 1000
         (run appCallbacks None
            [(1000, TouchStart (touchAt 0 0)), (1000, TouchMove (touchAt 10 0))]
            (createGestureHandler appCallbacks))) = Returned (Some ''drag'')
   \<and> calls (run appCallbacks None
       [(1000, TouchStart (touchAt 0 0)), (1000, TouchMove (touchAt 10 0)),
        (1000, TouchEnd (touchAt 10 0)),
        (1100, TouchStart (touchAt 10 0)), (1100, TouchEnd (touchAt 10 0))]
       (createGestureHandler appCallbacks)) = [DoubleTap]"
  by (simp add: scenario_defs)

subsection \<open>A desktop double click\<close>

text \<open>
  C4. A double click on the mouse channel delivers mousedown, mouseup, mousedown, mouseup
  and dblclick. The second mouseup reaches the double-tap path of \<open>handleEnd\<close>, and the
  dblclick listener invokes \<open>onDoubleTap\<close> once more: the callback runs twice for the one
  gesture.
\<close>

theorem desktop_double_click_fires_twice:
  "calls (run appCallbacks None
       [(1000, MouseDown (mouseAt 7 0)), (1050, MouseUp (mouseAt 7 0)),
        (1100, MouseDown (mouseAt 7 0)), (1150, MouseUp (mouseAt 7 0)),
        (1150, DblClick (mouseAt 7 0))]
       (createGestureHandler appCallbacks)) = [DoubleTap, DoubleTap]"
  by (simp add: scenario_defs)

subsection \<open>Callbacks that throw\<close>

text \<open>
  C5, as stated, fails: no callback is invoked under a guard, and \<open>onDrag\<close> runs before
  \<open>reset\<close>. A tap at 1000 ms leaves timer 1 pending; the next gesture moves 60 px and ends at
  1200 ms with an \<open>onDrag\<close> that throws. \<open>handleEnd\<close> and the touchend listener end with the
  exception, the gesture is still active, and the timer is still pending.
\<close>

theorem throwing_onDrag_counterexample:
  "fst (handleEnd (touchAt 60 0) 1200
         (run throwingCallbacks None
            [(1000, TouchStart (touchAt 0 0)), (1000, TouchEnd (touchAt 0 0)),
             (1100, TouchStart (touchAt 0 0)), (1150, TouchMove (touchAt 60 0))]
            (createGestureHandler throwingCallbacks))) = Thrown
   \<and> fst (touchend None (touchAt 60 0) 1200
         (run throwingCallbacks None
            [(1000, TouchStart (touchAt 0 0)), (1000, TouchEnd (touchAt 0 0)),
             (1100, TouchStart (touchAt 0 0)), (1150, TouchMove (touchAt 60 0))]
            (createGestureHandler throwingCallbacks))) = Thrown
   \<and> isDragging (state (snd (handleEnd (touchAt 60 0) 1200
         (run throwingCallbacks None
            [(1000, TouchStart (touchAt 0 0)), (1000, TouchEnd (touchAt 0 0)),
             (1100, TouchStart (touchAt 0 0)), (1150, TouchMove (touchAt 60 0))]
            (createGestureHandler throwingCallbacks)))))
   \<and> timers (snd (handleEnd (touchAt 60 0) 1200
         (run throwingCallbacks None
            [(1000, TouchStart (touchAt 0 0)), (1000, TouchEnd (touchAt 0 0)),
             (1100, TouchStart (touchAt 0 0)), (1150, TouchMove (touchAt 60 0))]
            (createGestureHandler throwingCallbacks)))) = [(1, 1300, 0)]"
  by (simp add: scenario_defs)

text \<open>
  C5, amended. A callback that returns lets the transition complete; a callback that throws
  ends \<open>handleEnd\<close> or \<open>handleMove\<close> with its exception, and only the writes made before
  the call remain. For \<open>onDrag\<close>: after a normal return the state is reset, the pending timer
  cancelled and the end time recorded; after a throw nothing but the call log has changed.
  For \<open>onDoubleTap\<close>: the pending timer is cancelled and \<open>tapTimeout\<close> cleared before the
  call; the reset and the end time follow only a normal return. For \<open>onSwipe\<close>:
  \<open>accumulatedDistance\<close> is reset and \<open>lastX\<close> updated before the call, and \<open>handleMove\<close>
  completes as the callback does.
\<close>

theorem callbacks_run_unguarded:
  "(isDragging (state w) \<and> hasActuallyDragged (state w)
      \<and> abs (coordX (getEventCoordinates e) - startX (state w)) > DRAG_THRESHOLD
      \<and> onDrag (handlers w) = Some f
    \<longrightarrow> handleEnd e t w =
          (case f (if coordX (getEventCoordinates e) - startX (state w) > 0 then - 1 else 1) of
             Thrown \<Rightarrow>
               (Thrown,
                invoke (Drag (if coordX (getEventCoordinates e) - startX (state w) > 0
                              then - 1 else 1)) w)
           | Returned v \<Rightarrow>
               (Returned (Some ''drag''),
                (reset (invoke (Drag (if coordX (getEventCoordinates e) - startX (state w) > 0
                                      then - 1 else 1)) w))
                  \<lparr>state := createInitialState\<lparr>lastTapTime := t\<rparr>\<rparr>)))
   \<and> (isDragging (state w) \<and> \<not> hasActuallyDragged (state w)
      \<and> 0 < t - lastTapTime (state w) \<and> t - lastTapTime (state w) < TAP_DELAY
      \<and> onDoubleTap (handlers w) = Some g
    \<longrightarrow> handleEnd e t w =
          (case g () of
             Thrown \<Rightarrow>
               (Thrown, invoke DoubleTap ((reset w)\<lparr>state := (state w)\<lparr>tapTimeout := None\<rparr>\<rparr>))
           | Returned v \<Rightarrow>
               (Returned (Some ''double-tap''),
                (invoke DoubleTap (reset w))\<lparr>state := createInitialState\<lparr>lastTapTime := t\<rparr>\<rparr>)))
   \<and> (isDragging (state w)
      \<and> abs (coordX (getEventCoordinates e) - startX (state w))
          > abs (coordY (getEventCoordinates e) - startY (state w))
      \<and> abs (accumulatedDistance (state w) + (coordX (getEventCoordinates e) - lastX (state w)))
          \<ge> SWIPE_THRESHOLD
      \<and> onSwipe (handlers w) = Some s
    \<longrightarrow> fst (handleMove e w) =
          s (if accumulatedDistance (state w) + (coordX (getEventCoordinates e) - lastX (state w)) > 0
             then - 1 else 1)
        \<and> accumulatedDistance (state (snd (handleMove e w))) = 0
        \<and> lastX (state (snd (handleMove e w))) = coordX (getEventCoordinates e))"
  by (auto simp add: handleEnd_def handleMove_def endGesture_def reset_def clearTimeout_def
      invoke_def Let_def split: option.splits Completion.splits)

theorem callbacks_run_unguarded_witness:
  "handleEnd (touchAt 60 0) 1000
       (run throwingCallbacks None
          [(1000, TouchStart (touchAt 0 0)), (1000, TouchMove (touchAt 60 0))]
          (createGestureHandler throwingCallbacks))
     = (Thrown,
        invoke (Drag (- 1))
          (run throwingCallbacks None
             [(1000, TouchStart (touchAt 0 0)), (1000, TouchMove (touchAt 60 0))]
             (createGestureHandler throwingCallbacks)))
   \<and> fst (handleEnd (touchAt 60 0) 1000
       (run appCallbacks None
          [(1000, TouchStart (touchAt 0 0)), (1000, TouchMove (touchAt 60 0))]
          (createGestureHandler appCallbacks))) = Returned (Some ''drag'')
   \<and> fst (handleEnd (touchAt 0 0) 1100
       (run throwingCallbacks None
          [(1000, TouchStart (touchAt 0 0)), (1000, TouchEnd (touchAt 0 0)),
           (1050, TouchStart (touchAt 0 0))]
          (createGestureHandler throwingCallbacks))) = Thrown
   \<and> fst (handleMove (touchAt 30 0)
            (handleStart (touchAt 0 0) (createGestureHandler throwingCallbacks))) = Thrown
   \<and> accumulatedDistance (state (snd (handleMove (touchAt 30 0)
            (handleStart (touchAt 0 0) (createGestureHandler throwingCallbacks))))) = 0"
proof -
  let ?d = "run throwingCallbacks None
          [(1000, TouchStart (touchAt 0 0)), (1000, TouchMove (touchAt 60 0))]
          (createGestureHandler throwingCallbacks)"
  let ?a = "run appCallbacks None
          [(1000, TouchStart (touchAt 0 0)), (1000, TouchMove (touchAt 60 0))]
          (createGestureHandler appCallbacks)"
  let ?t = "run throwingCallbacks None
          [(1000, TouchStart (touchAt 0 0)), (1000, TouchEnd (touchAt 0 0)),
           (1050, TouchStart (touchAt 0 0))]
          (createGestureHandler throwingCallbacks)"
  let ?s = "handleStart (touchAt 0 0) (createGestureHandler throwingCallbacks)"
  have d: "isDragging (state ?d) \<and> hasActuallyDragged (state ?d)
      \<and> abs (coordX (getEventCoordinates (touchAt 60 0)) - startX (state ?d)) > DRAG_THRESHOLD
      \<and> onDrag (handlers ?d) = Some (\<lambda>direction. Thrown)"
    by (simp add: scenario_defs)
  have pos: "coordX (getEventCoordinates (touchAt 60 0)) - startX (state ?d) > 0"
    by (simp add: scenario_defs)
  have a: "isDragging (state ?a) \<and> hasActuallyDragged (state ?a)
      \<and> abs (coordX (getEventCoordinates (touchAt 60 0)) - startX (state ?a)) > DRAG_THRESHOLD
      \<and> onDrag (handlers ?a) = Some (\<lambda>direction. Returned JsUndefined)"
    by (simp add: scenario_defs)
  have t: "isDragging (state ?t) \<and> \<not> hasActuallyDragged (state ?t)
      \<and> 0 < 1100 - lastTapTime (state ?t) \<and> 1100 - lastTapTime (state ?t) < TAP_DELAY
      \<and> onDoubleTap (handlers ?t) = Some (\<lambda>u. Thrown)"
    by (simp add: scenario_defs)
  have s: "isDragging (state ?s)
      \<and> abs (coordX (getEventCoordinates (touchAt 30 0)) - startX (state ?s))
          > abs (coordY (getEventCoordinates (touchAt 30 0)) - startY (state ?s))
      \<and> abs (accumulatedDistance (state ?s) + (coordX (getEventCoordinates (touchAt 30 0)) - lastX (state ?s)))
          \<ge> SWIPE_THRESHOLD
      \<and> onSwipe (handlers ?s) = Some (\<lambda>direction. Thrown)"
    by (simp add: scenario_defs)
  have q1: "handleEnd (touchAt 60 0) 1000 ?d = (Thrown, invoke (Drag (- 1)) ?d)"
    using callbacks_run_unguarded [where w = ?d and e = "touchAt 60 0" and t = 1000
        and f = "\<lambda>direction. Thrown", THEN conjunct1, THEN mp, OF d] pos
    by (simp del: run.simps)
  have q2: "fst (handleEnd (touchAt 60 0) 1000 ?a) = Returned (Some ''drag'')"
    using callbacks_run_unguarded [where w = ?a and e = "touchAt 60 0" and t = 1000
        and f = "\<lambda>direction. Returned JsUndefined", THEN conjunct1, THEN mp, OF a]
    by (simp del: run.simps)
  have q3: "fst (handleEnd (touchAt 0 0) 1100 ?t) = Thrown"
    using callbacks_run_unguarded [where w = ?t and e = "touchAt 0 0" and t = 1100
        and g = "\<lambda>u. Thrown", THEN conjunct2, THEN conjunct1, THEN mp, OF t]
    by (simp del: run.simps)
  have q4: "fst (handleMove (touchAt 30 0) ?s) = Thrown
      \<and> accumulatedDistance (state (snd (handleMove (touchAt 30 0) ?s))) = 0"
    using callbacks_run_unguarded [where w = ?s and e = "touchAt 30 0"
        and s = "\<lambda>direction. Thrown", THEN conjunct2, THEN conjunct2, THEN mp, OF s]
    by simp
  show ?thesis using q1 q2 q3 q4 by (simp del: run.simps)
qed

subsection \<open>Mouse events after a touch end\<close>

text \<open>
  C6, as stated, fails: the touchend listener writes \<open>lastTouchTime\<close> after \<open>handleEnd\<close>
  has returned, so a touch end whose callback throws records no time. A touch gesture
  moves 60 px and ends at 2000 ms with an \<open>onDrag\<close> that throws; the mousedown at 2100 ms
  and the mouseup at 2150 ms are then processed: the default of the mousedown is
  prevented and the mouseup schedules a tap timer.
\<close>

theorem thrown_touchend_counterexample:
  "fst (touchend None (touchAt 60 0) 2000
          (run throwingCallbacks None
             [(2000, TouchStart (touchAt 0 0)), (2000, TouchMove (touchAt 60 0))]
             (createGestureHandler throwingCallbacks))) = Thrown
   \<and> prevented (run throwingCallbacks None
         [(2000, TouchStart (touchAt 0 0)), (2000, TouchMove (touchAt 60 0)),
          (2000, TouchEnd (touchAt 60 0)), (2100, MouseDown (mouseAt 0 0))]
         (createGestureHandler throwingCallbacks)) = [mouseAt 0 0]
   \<and> timers (run throwingCallbacks None
         [(2000, TouchStart (touchAt 0 0)), (2000, TouchMove (touchAt 60 0)),
          (2000, TouchEnd (touchAt 60 0)), (2100, MouseDown (mouseAt 0 0)),
          (2150, MouseUp (mouseAt 0 0))]
         (createGestureHandler throwingCallbacks)) = [(1, 2450, 0)]"
  by (simp add: scenario_defs)

lemma handleEnd_keeps_lastTouchTime:
  "lastTouchTime (snd (handleEnd e t w)) = lastTouchTime w"
  by (auto simp add: handleEnd_def endGesture_def reset_def clearTimeout_def
      setTimeout_def invoke_def Let_def split: option.splits Completion.splits)

text \<open>
  C6, amended. Let a touchend be processed at time \<open>t\<close> with its listener running to
  completion (the event is not vetoed by the ignore predicate and no callback throws in
  \<open>handleEnd\<close>), and let \<open>w2\<close> be any later world in which no other touch end has been
  recorded since. A mousedown, mouseup or dblclick arriving at \<open>now\<close> with
  \<open>now - t < 500\<close> returns the world unchanged: no state is written, no callback is invoked
  and no default action is prevented. A touchend that is vetoed, or whose callback throws,
  leaves \<open>lastTouchTime\<close> as it was and so opens no suppression window.
\<close>

theorem mouse_ignored_after_completed_touchend:
  "(touchend ign e t w = (Returned (), w1) \<and> \<not> ignored ign e
      \<and> lastTouchTime w2 = lastTouchTime w1 \<and> now - t < 500
    \<longrightarrow> mousedown ign e' now w2 = (Returned (), w2)
        \<and> mouseup ign e' now w2 = (Returned (), w2)
        \<and> dblclick callbacks ign e' now w2 = (Returned (), w2))
   \<and> (fst (touchend ign e t w) = Thrown \<or> ignored ign e
    \<longrightarrow> lastTouchTime (snd (touchend ign e t w)) = lastTouchTime w)"
proof (intro conjI impI)
  assume a: "touchend ign e t w = (Returned (), w1) \<and> \<not> ignored ign e
      \<and> lastTouchTime w2 = lastTouchTime w1 \<and> now - t < 500"
  then have "lastTouchTime w1 = t"
    by (auto simp add: touchend_def split: prod.splits Completion.splits)
  with a show "mousedown ign e' now w2 = (Returned (), w2)"
    and "mouseup ign e' now w2 = (Returned (), w2)"
    and "dblclick callbacks ign e' now w2 = (Returned (), w2)"
    by (simp_all add: mousedown_def mouseup_def dblclick_def)
next
  assume "fst (touchend ign e t w) = Thrown \<or> ignored ign e"
  then show "lastTouchTime (snd (touchend ign e t w)) = lastTouchTime w"
    using handleEnd_keeps_lastTouchTime [of e t w]
    by (auto simp add: touchend_def split: prod.splits Completion.splits)
qed

theorem mouse_ignored_after_completed_touchend_witness:
  "mousedown None (mouseAt 0 0) 1200
       (snd (touchend None (touchAt 0 0) 1000
               (handleStart (touchAt 0 0) (createGestureHandler appCallbacks))))
     = (Returned (),
        snd (touchend None (touchAt 0 0) 1000
               (handleStart (touchAt 0 0) (createGestureHandler appCallbacks))))
   \<and> mouseup None (mouseAt 0 0) 1200
       (snd (touchend None (touchAt 0 0) 1000
               (handleStart (touchAt 0 0) (createGestureHandler appCallbacks))))
     = (Returned (),
        snd (touchend None (touchAt 0 0) 1000
               (handleStart (touchAt 0 0) (createGestureHandler appCallbacks))))
   \<and> dblclick appCallbacks None (mouseAt 0 0) 1200
       (snd (touchend None (touchAt 0 0) 1000
               (handleStart (touchAt 0 0) (createGestureHandler appCallbacks))))
     = (Returned (),
        snd (touchend None (touchAt 0 0) 1000
               (handleStart (touchAt 0 0) (createGestureHandler appCallbacks))))
   \<and> lastTouchTime (snd (touchend None (touchAt 60 0) 2000
          (run throwingCallbacks None
             [(2000, TouchStart (touchAt 0 0)), (2000, TouchMove (touchAt 60 0))]
             (createGestureHandler throwingCallbacks)))) = 0"
proof -
  let ?w = "handleStart (touchAt 0 0) (createGestureHandler appCallbacks)"
  let ?w1 = "snd (touchend None (touchAt 0 0) 1000 ?w)"
  let ?v = "run throwingCallbacks None
             [(2000, TouchStart (touchAt 0 0)), (2000, TouchMove (touchAt 60 0))]
             (createGestureHandler throwingCallbacks)"
  have a: "touchend None (touchAt 0 0) 1000 ?w = (Returned (), ?w1) \<and> \<not> ignored None (touchAt 0 0)
      \<and> lastTouchTime ?w1 = lastTouchTime ?w1 \<and> (1200::int) - 1000 < 500"
    by (simp add: scenario_defs)
  have b: "fst (touchend None (touchAt 60 0) 2000 ?v) = Thrown \<or> ignored None (touchAt 60 0)"
    by (simp add: scenario_defs)
  have l: "lastTouchTime ?v = 0" by (simp add: scenario_defs)
  note i1 = mouse_ignored_after_completed_touchend [where ign = None and e = "touchAt 0 0"
      and t = 1000 and w = ?w and ?w1.0 = ?w1 and ?w2.0 = ?w1 and now = 1200
      and e' = "mouseAt 0 0" and callbacks = appCallbacks, THEN conjunct1, THEN mp, OF a]
  note i2 = mouse_ignored_after_completed_touchend [where ign = None and e = "touchAt 60 0"
      and t = 2000 and w = ?v, THEN conjunct2, THEN mp, OF b]
  show ?thesis using i1 i2 l by (simp del: run.simps)
qed

subsection \<open>Swipes\<close>

lemma handleMove_horizontal:
  assumes "isDragging (state w)"
    and "abs (coordX (getEventCoordinates e) - startX (state w))
          > abs (coordY (getEventCoordinates e) - startY (state w))"
    and "onSwipe (handlers w) = Some f"
  shows "calls (snd (handleMove e w)) = calls w @
           (if abs (accumulatedDistance (state w) + (coordX (getEventCoordinates e) - lastX (state w)))
                 \<ge> SWIPE_THRESHOLD
            then [Swipe (if accumulatedDistance (state w) + (coordX (getEventCoordinates e) - lastX (state w)) > 0
                         then - 1 else 1)]
            else [])"
    and "accumulatedDistance (state (snd (handleMove e w))) =
           (if abs (accumulatedDistance (state w) + (coordX (getEventCoordinates e) - lastX (state w)))
                 \<ge> SWIPE_THRESHOLD
            then 0
            else accumulatedDistance (state w) + (coordX (getEventCoordinates e) - lastX (state w)))"
    and "lastX (state (snd (handleMove e w))) = coordX (getEventCoordinates e)"
    and "isDragging (state (snd (handleMove e w)))"
    and "startX (state (snd (handleMove e w))) = startX (state w)"
    and "startY (state (snd (handleMove e w))) = startY (state w)"
    and "handlers (snd (handleMove e w)) = handlers w"
  using assms by (simp_all add: handleMove_def invoke_def Let_def)

lemma swipes_refine_spec:
  assumes "isDragging (state w)" and "onSwipe (handlers w) = Some f"
    and "\<forall>e\<in>set es. abs (coordX (getEventCoordinates e) - startX (state w))
                       > abs (coordY (getEventCoordinates e) - startY (state w))"
  shows "calls (handleMoves es w) = calls w @
           map Swipe (specSwipes (accumulatedDistance (state w)) (lastX (state w))
                        (map (\<lambda>e. coordX (getEventCoordinates e)) es))"
  using assms
proof (induction es arbitrary: w)
  case Nil
  then show ?case by simp
next
  case (Cons e es)
  let ?w' = "snd (handleMove e w)"
  have h: "abs (coordX (getEventCoordinates e) - startX (state w))
          > abs (coordY (getEventCoordinates e) - startY (state w))"
    using Cons.prems(3) by simp
  note step = handleMove_horizontal [OF Cons.prems(1) h Cons.prems(2)]
  have rest: "\<forall>e'\<in>set es. abs (coordX (getEventCoordinates e') - startX (state ?w'))
                       > abs (coordY (getEventCoordinates e') - startY (state ?w'))"
    using Cons.prems(3) step(5,6) by simp
  have f': "onSwipe (handlers ?w') = Some f"
    using Cons.prems(2) step(7) by simp
  from Cons.IH [OF step(4) f' rest] show ?case
    using step(1,2,3) by simp
qed

text \<open>
  C7. For every run of horizontally dominant moves of an active gesture with \<open>onSwipe\<close>
  registered, the swipes invoked are those of the specification's rule \<open>specSwipes\<close>, in
  order. At every sample of the run: when the accumulated distance, with this sample's
  displacement added, reaches \<open>SWIPE_THRESHOLD\<close> in magnitude, \<open>onSwipe\<close> is invoked exactly
  once, with \<open>-1\<close> for a positive and \<open>+1\<close> for a negative accumulated distance, and the
  accumulator is reset to 0; otherwise no callback is invoked and the accumulator keeps
  the sum. One swipe per reaching of the threshold: a sample that overshoots it fires one
  swipe and the surplus is dropped by the reset.
\<close>

theorem swipe_once_per_threshold:
  assumes act: "isDragging (state w)" and reg: "onSwipe (handlers w) = Some f"
    and hor: "\<forall>e\<in>set es. abs (coordX (getEventCoordinates e) - startX (state w))
                       > abs (coordY (getEventCoordinates e) - startY (state w))"
  shows "calls (handleMoves es w) = calls w @
           map Swipe (specSwipes (accumulatedDistance (state w)) (lastX (state w))
                        (map (\<lambda>e. coordX (getEventCoordinates e)) es))
       \<and> (\<forall>pre e post. es = pre @ e # post \<longrightarrow>
            calls (snd (handleMove e (handleMoves pre w))) = calls (handleMoves pre w) @
              (if abs (accumulatedDistance (state (handleMoves pre w))
                       + (coordX (getEventCoordinates e) - lastX (state (handleMoves pre w))))
                    \<ge> SWIPE_THRESHOLD
               then [Swipe (if accumulatedDistance (state (handleMoves pre w))
                       + (coordX (getEventCoordinates e) - lastX (state (handleMoves pre w))) > 0
                            then - 1 else 1)]
               else [])
          \<and> accumulatedDistance (state (snd (handleMove e (handleMoves pre w)))) =
              (if abs (accumulatedDistance (state (handleMoves pre w))
                       + (coordX (getEventCoordinates e) - lastX (state (handleMoves pre w))))
                    \<ge> SWIPE_THRESHOLD
               then 0
               else accumulatedDistance (state (handleMoves pre w))
                       + (coordX (getEventCoordinates e) - lastX (state (handleMoves pre w)))))"
proof (intro conjI allI impI)
  show "calls (handleMoves es w) = calls w @
           map Swipe (specSwipes (accumulatedDistance (state w)) (lastX (state w))
                        (map (\<lambda>e. coordX (getEventCoordinates e)) es))"
    by (rule swipes_refine_spec [OF act reg hor])
next
  fix pre e post
  assume split: "es = pre @ e # post"
  let ?w' = "handleMoves pre w"
  note p = handleMoves_preserves [of pre w]
  have a: "isDragging (state ?w')" using act p by simp
  have r: "onSwipe (handlers ?w') = Some f" using reg p by simp
  have h: "abs (coordX (getEventCoordinates e) - startX (state ?w'))
          > abs (coordY (getEventCoordinates e) - startY (state ?w'))"
    using hor split p by simp
  note step = handleMove_horizontal [OF a h r]
  show "calls (snd (handleMove e ?w')) = calls ?w' @
              (if abs (accumulatedDistance (state ?w')
                       + (coordX (getEventCoordinates e) - lastX (state ?w')))
                    \<ge> SWIPE_THRESHOLD
               then [Swipe (if accumulatedDistance (state ?w')
                       + (coordX (getEventCoordinates e) - lastX (state ?w')) > 0
                            then - 1 else 1)]
               else [])"
    by (rule step(1))
  show "accumulatedDistance (state (snd (handleMove e ?w'))) =
              (if abs (accumulatedDistance (state ?w')
                       + (coordX (getEventCoordinates e) - lastX (state ?w')))
                    \<ge> SWIPE_THRESHOLD
               then 0
               else accumulatedDistance (state ?w')
                       + (coordX (getEventCoordinates e) - lastX (state ?w')))"
    by (rule step(2))
qed

theorem swipe_once_per_threshold_witness:
  "calls (handleMoves [touchAt 10 0, touchAt 20 0, touchAt 30 0, touchAt 40 0, touchAt 25 0, touchAt 5 0]
            (handleStart (touchAt 0 0) (createGestureHandler appCallbacks)))
     = [Swipe (- 1), Swipe (- 1), Swipe 1]"
proof -
  let ?w = "handleStart (touchAt 0 0) (createGestureHandler appCallbacks)"
  have a: "isDragging (state ?w)" by (simp add: scenario_defs)
  have b: "onSwipe (handlers ?w) = Some (\<lambda>direction. Returned JsUndefined)"
    by (simp add: scenario_defs)
  have c: "\<forall>e\<in>set [touchAt 10 0, touchAt 20 0, touchAt 30 0, touchAt 40 0, touchAt 25 0, touchAt 5 0].
             abs (coordX (getEventCoordinates e) - startX (state ?w))
               > abs (coordY (getEventCoordinates e) - startY (state ?w))"
    by (simp add: scenario_defs)
  have d: "calls ?w = [] \<and> accumulatedDistance (state ?w) = 0 \<and> lastX (state ?w) = 0"
    by (simp add: scenario_defs)
  show ?thesis
    using swipe_once_per_threshold [OF a b c, THEN conjunct1] d
    by (simp add: touchAt_def SWIPE_THRESHOLD_def)
qed

text \<open>
  Every swipe accounts for at least \<open>SWIPE_THRESHOLD\<close> pixels of horizontal travel, and
  steady travel in steps of 5 px over 60 px fires three swipes.
\<close>

lemma specSwipes_bound:
  "SWIPE_THRESHOLD * int (length (specSwipes acc prevX pxs))
     \<le> abs acc + sum_list (map abs (map2 (-) pxs (prevX # pxs)))"
proof (induction pxs arbitrary: acc prevX)
  case Nil
  then show ?case by simp
next
  case (Cons px pxs)
  show ?case
  proof (cases "abs (acc + (px - prevX)) \<ge> SWIPE_THRESHOLD")
    case True
    from Cons.IH [of 0 px] True show ?thesis by (simp add: algebra_simps)
  next
    case False
    from Cons.IH [of "acc + (px - prevX)" px] False show ?thesis by simp
  qed
qed

lemma specSwipes_steady:
  "specSwipes 0 0 [5, 10, 15, 20, 25, 30, 35, 40, 45, 50, 55, 60] = [- 1, - 1, - 1]"
  by (simp add: SWIPE_THRESHOLD_def)

subsection \<open>Two quick taps\<close>








lemma pending_timer_cleared:
  assumes "\<forall>tm\<in>set (timers w). tapTimeout (state w) = Some (fst tm)"
  shows "(case tapTimeout (state w) of
            Some h \<Rightarrow> filter (\<lambda>tm. fst tm \<noteq> h) (timers w)
          | None \<Rightarrow> timers w) = []"
proof (cases "tapTimeout (state w)")
  case None
  have "tm \<notin> set (timers w)" for tm
    using assms None by (metis option.distinct(1))
  then have "timers w = []" by (metis list.set_intros(1) list.exhaust)
  with None show ?thesis by simp
next
  case (Some h)
  with assms have "\<forall>tm\<in>set (timers w). fst tm = h" by auto
  then have "filter (\<lambda>tm. fst tm \<noteq> h) (timers w) = []"
    by (simp add: filter_empty_conv)
  with Some show ?thesis by simp
qed
















text \<open>
  At most one tap timer is pending, and \<open>tapTimeout\<close> names it: this holds of a new
  handler and is kept by every input the host can deliver, whatever the callbacks do.
\<close>

lemma reset_no_timers:
  assumes "\<forall>tm\<in>set (timers w). tapTimeout (state w) = Some (fst tm)"
  shows "timers (reset w) = []"
  using pending_timer_cleared [OF assms]
  by (simp add: reset_def clearTimeout_def Let_def split: option.splits)

lemma endGesture_no_timers:
  assumes "\<forall>tm\<in>set (timers w). tapTimeout (state w) = Some (fst tm)"
  shows "timers (snd (endGesture k t w)) = []"
  using reset_no_timers [OF assms] by (simp add: endGesture_def Let_def)

lemma handleEnd_timers_cases:
  assumes inv: "\<forall>tm\<in>set (timers w). tapTimeout (state w) = Some (fst tm)"
  shows "(timers (snd (handleEnd e t w)) = timers w
            \<and> tapTimeout (state (snd (handleEnd e t w))) = tapTimeout (state w))
       \<or> timers (snd (handleEnd e t w)) = []
       \<or> (\<exists>n d x. timers (snd (handleEnd e t w)) = [(n, d, x)]
            \<and> tapTimeout (state (snd (handleEnd e t w))) = Some n)"
proof (cases "isDragging (state w)")
  case False
  then show ?thesis by (simp add: handleEnd_def)
next
  case act: True
  note empty = pending_timer_cleared [OF inv]
  have inv': "\<forall>tm\<in>set (timers (invoke c w)). tapTimeout (state (invoke c w)) = Some (fst tm)" for c
    using inv by (simp add: invoke_def)
  show ?thesis
  proof (cases "hasActuallyDragged (state w)")
    case drag: True
    show ?thesis
    proof (cases "if abs (coordX (getEventCoordinates e) - startX (state w)) > DRAG_THRESHOLD
                  then onDrag (handlers w) else None")
      case None
      with act drag endGesture_no_timers [OF inv, of "''drag''" t] show ?thesis
        by (simp add: handleEnd_def Let_def)
    next
      case (Some f)
      show ?thesis
      proof (cases "f (if coordX (getEventCoordinates e) - startX (state w) > 0 then - 1 else 1)")
        case Thrown
        with act drag Some show ?thesis
          by (simp add: handleEnd_def Let_def invoke_def)
      next
        case (Returned v)
        with act drag Some endGesture_no_timers [OF inv', of "''drag''" t] show ?thesis
          by (simp add: handleEnd_def Let_def)
      qed
    qed
  next
    case tap: False
    show ?thesis
    proof (cases "t - lastTapTime (state w) < TAP_DELAY \<and> t - lastTapTime (state w) > 0")
      case win: True
      let ?w1 = "(case tapTimeout (state w) of
                         Some h \<Rightarrow> (let w' = clearTimeout h w
                                    in w'\<lparr>state := (state w')\<lparr>tapTimeout := None\<rparr>\<rparr>)
                       | None \<Rightarrow> w)"
      have t1: "timers ?w1 = []"
        using empty by (simp add: clearTimeout_def Let_def split: option.splits)
      have i1: "\<forall>tm\<in>set (timers ?w1). tapTimeout (state ?w1) = Some (fst tm)"
        using t1 by simp
      have i2: "\<forall>tm\<in>set (timers (invoke DoubleTap ?w1)).
                  tapTimeout (state (invoke DoubleTap ?w1)) = Some (fst tm)"
        using t1 by (simp add: invoke_def)
      show ?thesis
      proof (cases "onDoubleTap (handlers ?w1)")
        case None
        with act tap win endGesture_no_timers [OF i1, of "''double-tap''" t] show ?thesis
          by (simp add: handleEnd_def Let_def)
      next
        case (Some f)
        show ?thesis
        proof (cases "f ()")
          case Thrown
          with act tap win Some t1 show ?thesis
            by (simp add: handleEnd_def Let_def invoke_def)
        next
          case (Returned v)
          with act tap win Some endGesture_no_timers [OF i2, of "''double-tap''" t] show ?thesis
            by (simp add: handleEnd_def Let_def)
        qed
      qed
    next
      case nowin: False
      have "timers (snd (handleEnd e t w))
              = [(nextTimerId w, t + TAP_DELAY, coordClientX (getEventCoordinates e))]
          \<and> tapTimeout (state (snd (handleEnd e t w))) = Some (nextTimerId w)"
        using act tap nowin empty
        by (auto simp add: handleEnd_def setTimeout_def clearTimeout_def Let_def
            split: option.splits)
      then show ?thesis by blast
    qed
  qed
qed

lemma handleEnd_keeps_single_timer:
  assumes inv: "\<forall>tm\<in>set (timers w). tapTimeout (state w) = Some (fst tm)"
  shows "\<forall>tm\<in>set (timers (snd (handleEnd e t w))).
           tapTimeout (state (snd (handleEnd e t w))) = Some (fst tm)"
  using handleEnd_timers_cases [OF inv, of e t] inv by auto

lemma find_Some_member:
  "find P xs = Some x \<Longrightarrow> x \<in> set xs \<and> P x"
  by (induction xs) (auto split: if_splits)

lemma tapTimerCallback_keeps_timers:
  "timers (snd (tapTimerCallback x w)) = timers w"
  by (cases "onTap (handlers w)")
    (simp_all add: tapTimerCallback_def invoke_def Let_def split: Completion.splits)

lemma fireTimer_keeps_single_timer:
  assumes inv: "\<forall>tm\<in>set (timers w). tapTimeout (state w) = Some (fst tm)"
  shows "\<forall>tm\<in>set (timers (snd (fireTimer h now w))).
           tapTimeout (state (snd (fireTimer h now w))) = Some (fst tm)"
proof (cases "find (\<lambda>tm. fst tm = h) (timers w)")
  case None
  with inv show ?thesis by (simp add: fireTimer_def)
next
  case (Some tm)
  obtain h' due tapX where tm: "tm = (h', due, tapX)" by (cases tm)
  from find_Some_member [OF Some] have "tm \<in> set (timers w)" and "fst tm = h" by simp_all
  with inv have "tapTimeout (state w) = Some h" by auto
  with inv have "\<forall>x\<in>set (timers w). fst x = h" by auto
  then have f: "timers (clearTimeout h w) = []"
    by (simp add: clearTimeout_def filter_empty_conv)
  show ?thesis
  proof (cases "due \<le> now")
    case True
    then have "fireTimer h now w = tapTimerCallback tapX (clearTimeout h w)"
      using Some tm by (simp add: fireTimer_def)
    then show ?thesis using f tapTimerCallback_keeps_timers [of tapX "clearTimeout h w"] by simp
  next
    case False
    then have "fireTimer h now w = (Returned (), w)"
      using Some tm by (simp add: fireTimer_def)
    with inv show ?thesis by simp
  qed
qed

lemma dispatch_keeps_single_timer:
  assumes inv: "\<forall>tm\<in>set (timers w). tapTimeout (state w) = Some (fst tm)"
  shows "\<forall>tm\<in>set (timers (snd (dispatch callbacks ign i w))).
           tapTimeout (state (snd (dispatch callbacks ign i w))) = Some (fst tm)"
proof (cases i)
  case (Pair now inp)
  note me = handleMove_keeps_timers
  note he = handleEnd_keeps_single_timer [OF inv]
  show ?thesis
  proof (cases inp)
    case (TouchStart e)
    with Pair inv show ?thesis by (simp add: touchstart_def handleStart_def Let_def)
  next
    case (TouchMove e)
    obtain c w1 where h: "handleMove e w = (c, w1)" by (cases "handleMove e w")
    with me [of e w] inv have "\<forall>tm\<in>set (timers w1). tapTimeout (state w1) = Some (fst tm)"
      by simp
    with Pair TouchMove h inv show ?thesis
      by (cases c) (simp_all add: touchmove_def preventDefault_def)
  next
    case (TouchEnd e)
    obtain c w1 where h: "handleEnd e now w = (c, w1)" by (cases "handleEnd e now w")
    with he [of e now] have "\<forall>tm\<in>set (timers w1). tapTimeout (state w1) = Some (fst tm)"
      by simp
    with Pair TouchEnd h inv show ?thesis
      by (cases c) (simp_all add: touchend_def)
  next
    case (MouseDown e)
    with Pair inv show ?thesis
      by (simp add: mousedown_def handleStart_def preventDefault_def Let_def)
  next
    case (MouseMove e)
    obtain c w1 where h: "handleMove e w = (c, w1)" by (cases "handleMove e w")
    with me [of e w] inv have "\<forall>tm\<in>set (timers w1). tapTimeout (state w1) = Some (fst tm)"
      by simp
    with Pair MouseMove h inv show ?thesis
      by (cases c) (simp_all add: mousemove_def)
  next
    case (MouseUp e)
    obtain c w1 where h: "handleEnd e now w = (c, w1)" by (cases "handleEnd e now w")
    with he [of e now] have "\<forall>tm\<in>set (timers w1). tapTimeout (state w1) = Some (fst tm)"
      by simp
    with Pair MouseUp h inv show ?thesis
      by (cases c) (simp_all add: mouseup_def)
  next
    case (DblClick e)
    with Pair inv show ?thesis
      by (cases "onDoubleTap callbacks")
        (simp_all add: dblclick_def preventDefault_def invoke_def Let_def
          split: Completion.splits)
  next
    case (TimerFires h)
    with Pair fireTimer_keeps_single_timer [OF inv, of h now] show ?thesis by simp
  qed
qed

lemma reachable_single_timer:
  "\<forall>tm\<in>set (timers (run callbacks ign inputs (createGestureHandler callbacks'))).
     tapTimeout (state (run callbacks ign inputs (createGestureHandler callbacks'))) = Some (fst tm)"
proof -
  have step: "\<forall>tm\<in>set (timers (run callbacks ign inputs w)).
           tapTimeout (state (run callbacks ign inputs w)) = Some (fst tm)"
    if "\<forall>tm\<in>set (timers w). tapTimeout (state w) = Some (fst tm)" for w
    using that
  proof (induction inputs arbitrary: w)
    case Nil
    then show ?case by simp
  next
    case (Cons i inputs)
    from Cons.IH [OF dispatch_keeps_single_timer [OF Cons.prems, of callbacks ign i]]
    show ?case by simp
  qed
  have "\<forall>tm\<in>set (timers (createGestureHandler callbacks')).
     tapTimeout (state (createGestureHandler callbacks')) = Some (fst tm)"
    by (simp add: createGestureHandler_def setHandlers_def newGestureHandler_def)
  then show ?thesis by (rule step)
qed




end
